theory Spec2Isabelle
  imports Complex_Main
begin

section \<open>go-city-distance: the data model of city-distance.go\<close>

text \<open>
  The program geocodes two place names through an HTTP endpoint and prints the
  great-circle distance between the two answers. The embedding follows the source
  function by function. Go's \<open>float64\<close> is read as \<open>real\<close>: every arithmetic
  operation and every function of package \<open>math\<close> stands for the mathematical
  operation it rounds, and \<open>math.Pi\<close> is \<open>pi\<close>. Statements about rounding, NaN or
  infinities are therefore outside this development.
\<close>

type_synonym Degree = real

record GoogleGeocodingAPI =
  APIKey :: string

record GeoLocation =
  Lat :: Degree
  Lng :: Degree

record GeoLocationViewPort =
  Northeast :: GeoLocation
  Southwest :: GeoLocation

record Geometry =
  Location :: GeoLocation
  LocationType :: string
  Viewport :: GeoLocationViewPort
  Bounds :: GeoLocationViewPort

record AddressComponent =
  Longname :: string
  Shortname :: string
  Types :: "string list"

record GoogleGeoResult =
  AddressComponents :: "AddressComponent list"
  FormattedAddress :: string
  Geometry :: Geometry
  Types :: "string list"

record GoogleGeoAPIResponse =
  Status :: string
  Results :: "GoogleGeoResult list"

text \<open>
  \<open>Location\<close> is declared last, so that the unqualified field names \<open>Lat\<close> and
  \<open>Lng\<close> are those of \<open>Location\<close>; the fields of \<open>GeoLocation\<close> are written
  \<open>GeoLocation.Lat\<close> and \<open>GeoLocation.Lng\<close>.
\<close>

record Location =
  Lat :: Degree
  Lng :: Degree
  Address :: string

definition GOOGLE_API :: string where
  "GOOGLE_API = ''https://maps.googleapis.com/maps/api/geocode/json''"

definition EARTH_RADIUS :: real where
  "EARTH_RADIUS = 6371"

subsection \<open>Errors, panics and what a run leaves behind\<close>

text \<open>
  A Go \<open>error\<close> value comes either from \<open>http.Get\<close> or from the JSON decoder.
  A function either returns, panics (here: by dereferencing a nil pointer, or by
  \<open>panic(err)\<close> in \<open>main\<close>), or blocks forever on a channel nobody sends on.
\<close>

datatype error = TransportError string | DecodeError string

datatype panic_value = NilPointerDereference | PanicError error

datatype 'a outcome = Return 'a | Panic panic_value | Blocked

text \<open>
  The observable actions of a run, in order: an HTTP GET of a URL, a call of
  \<open>geoDistance\<close> with its two arguments, and a write to standard output.
\<close>

datatype event = HttpGet string | CallGeoDistance Location Location | Stdout string

fun geoDistance_calls :: "event list \<Rightarrow> (Location \<times> Location) list" where
  "geoDistance_calls [] = []"
| "geoDistance_calls (CallGeoDistance a b # es) = (a, b) # geoDistance_calls es"
| "geoDistance_calls (_ # es) = geoDistance_calls es"

fun http_requests :: "event list \<Rightarrow> string list" where
  "http_requests [] = []"
| "http_requests (HttpGet u # es) = u # http_requests es"
| "http_requests (_ # es) = http_requests es"

fun stdout_text :: "event list \<Rightarrow> string" where
  "stdout_text [] = []"
| "stdout_text (Stdout s # es) = s @ stdout_text es"
| "stdout_text (_ # es) = stdout_text es"

text \<open>
  The library and the network are parameters of the model: \<open>http_Get\<close> answers a URL
  with a transport error or a response body (every request is assumed to be answered),
  \<open>json_Decode\<close> is \<open>json.NewDecoder(body).Decode\<close> into a fresh
  \<open>GoogleGeoAPIResponse\<close>, \<open>QueryEscape\<close> is \<open>url.QueryEscape\<close>,
  \<open>PrintDefaults\<close> is the text \<open>flag.PrintDefaults\<close> writes and \<open>format_f\<close>
  is the \<open>%f\<close> verb of \<open>fmt.Printf\<close>.
\<close>

record world =
  http_Get :: "string \<Rightarrow> error + string"
  json_Decode :: "string \<Rightarrow> error + GoogleGeoAPIResponse"
  QueryEscape :: "string \<Rightarrow> string"
  PrintDefaults :: string
  format_f :: "real \<Rightarrow> string"

subsection \<open>Degree.GetRadians\<close>

definition GetRadians :: "Degree \<Rightarrow> real" where
  "GetRadians d = d * pi / 180.0"

subsection \<open>GoogleGeocodingAPI.GetLocation\<close>

text \<open>
  The result is Go's pair \<open>(*Location, error)\<close>: a nil pointer is \<open>None\<close>, a nil
  error is \<open>None\<close>. The first component of the model's result is the trace.
\<close>

definition GetLocation ::
  "world \<Rightarrow> GoogleGeocodingAPI \<Rightarrow> string \<Rightarrow> event list \<times> (Location option \<times> error option)" where
  "GetLocation w g q =
     (let request_url = GOOGLE_API @ ''?sensor=false&address='' @ QueryEscape w q;
          request_url = (if length (APIKey g) > 0 then request_url @ ''&key='' @ APIKey g
                         else request_url)
      in ([HttpGet request_url],
          (case http_Get w request_url of
             Inl err \<Rightarrow> (None, Some err)
           | Inr body \<Rightarrow>
               (case json_Decode w body of
                  Inl err \<Rightarrow> (None, Some err)
                | Inr r \<Rightarrow>
                    if length (Results r) = 0 then (None, None)
                    else (Some \<lparr>Lat = GeoLocation.Lat (Geometry.Location (GoogleGeoResult.Geometry (Results r ! 0))),
                                Lng = GeoLocation.Lng (Geometry.Location (GoogleGeoResult.Geometry (Results r ! 0))),
                                Address = FormattedAddress (Results r ! 0)\<rparr>,
                          None)))))"

subsection \<open>KM2Miles and geoDistance\<close>

text \<open>The parameter \<open>dist\<close> of the source is \<open>d\<close> here (\<open>dist\<close> is the metric of HOL).\<close>

definition KM2Miles :: "real \<Rightarrow> real" where
  "KM2Miles d = d * 0.621371192"

text \<open>
  \<open>math.Atan2(y, x)\<close> on finite arguments: the angle of the point \<open>(x, y)\<close> in
  \<open>(-pi, pi]\<close>, computed as the library does from \<open>Atan(y / x)\<close> and the quadrant.
\<close>

definition Atan2 :: "real \<Rightarrow> real \<Rightarrow> real" where
  "Atan2 y x =
     (if y = 0 then (if x \<ge> 0 then 0 else pi)
      else if x = 0 then sgn y * (pi / 2)
      else (let q = arctan (y / x)
            in if x < 0 then (if q \<le> 0 then q + pi else q - pi) else q))"

definition geoDistance :: "Location \<Rightarrow> Location \<Rightarrow> real" where
  "geoDistance loc1 loc2 =
     (let phi1 = GetRadians (Lat loc1);
          phi2 = GetRadians (Lat loc2);
          deltaphi = GetRadians (Lat loc1 - Lat loc2);
          deltalambda = GetRadians (Lng loc1 - Lng loc2);
          a = sin (deltaphi / 2) * sin (deltaphi / 2) +
              cos phi1 * cos phi2 * sin (deltalambda / 2) * sin (deltalambda / 2);
          c = 2 * Atan2 (sqrt a) (sqrt (1 - a))
      in EARTH_RADIUS * c)"

subsection \<open>GoogleGeocodingAPI.GetDistance\<close>

text \<open>
  Each of the two goroutines runs \<open>GetLocation\<close>, drops the error
  (\<open>loc, _ := g.GetLocation(q)\<close>) and sends the pointer on the channel.
\<close>

definition GetDistance_worker ::
  "world \<Rightarrow> GoogleGeocodingAPI \<Rightarrow> string \<Rightarrow> event list \<times> Location option" where
  "GetDistance_worker w g q = (case GetLocation w g q of (es, (loc, _)) \<Rightarrow> (es, loc))"

text \<open>
  The scheduler decides which goroutine's send is received first. The trace lists the
  goroutines' requests in that order.
\<close>

datatype arrival = InOrder | Swapped

definition arrivals :: "arrival \<Rightarrow> 'a \<Rightarrow> 'a \<Rightarrow> 'a list" where
  "arrivals s x y = (case s of InOrder \<Rightarrow> [x, y] | Swapped \<Rightarrow> [y, x])"

text \<open>The unary \<open>*\<close> on a pointer: a nil pointer panics.\<close>

definition deref :: "'a option \<Rightarrow> panic_value + 'a" where
  "deref p = (case p of None \<Rightarrow> Inl NilPointerDereference | Some v \<Rightarrow> Inr v)"

text \<open>
  The receive loop: \<open>locations\<close> is the slice built so far, the last argument is what
  the channel still delivers. Receiving from a channel with no sender left blocks.
  The arguments \<open>*locations[0]\<close> and \<open>*locations[1]\<close> are evaluated, left to
  right, before \<open>geoDistance\<close> is entered. The loop has no exit but its two
  \<open>return\<close> statements, so the \<open>return 0.1, nil\<close> after it is never reached.
\<close>

fun GetDistance_loop ::
  "string \<Rightarrow> Location option list \<Rightarrow> Location option list \<Rightarrow> event list \<times> (real \<times> error option) outcome" where
  "GetDistance_loop unit locations [] = ([], Blocked)"
| "GetDistance_loop unit locations (r # ch) =
     (let locations = locations @ [r]
      in if length locations = 2 then
           (case deref (locations ! 0) of
              Inl p \<Rightarrow> ([], Panic p)
            | Inr l0 \<Rightarrow>
                (case deref (locations ! 1) of
                   Inl p \<Rightarrow> ([], Panic p)
                 | Inr l1 \<Rightarrow>
                     (let d = geoDistance l0 l1
                      in ([CallGeoDistance l0 l1],
                          if unit = ''miles'' then Return (KM2Miles d, None)
                          else Return (d, None)))))
         else GetDistance_loop unit locations ch)"

definition GetDistance ::
  "world \<Rightarrow> arrival \<Rightarrow> GoogleGeocodingAPI \<Rightarrow> string \<Rightarrow> string \<Rightarrow> string \<Rightarrow>
     event list \<times> (real \<times> error option) outcome" where
  "GetDistance w s g q1 q2 unit =
     (let sent = arrivals s (GetDistance_worker w g q1) (GetDistance_worker w g q2);
          (es, out) = GetDistance_loop unit [] (map snd sent)
      in (concat (map fst sent) @ es, out))"

subsection \<open>main\<close>

text \<open>
  \<open>main\<close> after \<open>flag.Parse()\<close> has returned: \<open>unit\<close> and \<open>flHelp\<close> are the
  parsed flag values, \<open>Args\<close> is \<open>os.Args\<close>. The process ends with an exit status,
  with a panic, or never.
\<close>

datatype exit = Exit nat | Crash panic_value | Hang

definition Usage :: "world \<Rightarrow> event list" where
  "Usage w =
     [Stdout ''Usage: go-city-distance [OPTIONS] CITY-A CITY-B\<newline>'',
      Stdout (''       go-city-distance [ --help ]'' @ ''\<newline>\<newline>''),
      Stdout (''Find the distance between two cities.\<newline>\<newline>Options:\<newline>''),
      Stdout (PrintDefaults w)]"

definition main :: "world \<Rightarrow> arrival \<Rightarrow> string \<Rightarrow> bool \<Rightarrow> string list \<Rightarrow> event list \<times> exit" where
  "main w s unit flHelp Args =
     (let out = [Stdout (unit @ ''\<newline>'')]
      in if unit \<noteq> ''km'' \<and> unit \<noteq> ''miles'' then (out @ Usage w, Exit 1)
         else if flHelp then (out @ Usage w, Exit 0)
         else if length Args < 3 then (out @ Usage w, Exit 1)
         else
           (let g = \<lparr>APIKey = ''''\<rparr>;
                argv = length Args;
                loc1 = Args ! (argv - 2);
                loc2 = Args ! (argv - 1)
            in case GetDistance w s g loc1 loc2 unit of
                 (es, Panic p) \<Rightarrow> (out @ es, Crash p)
               | (es, Blocked) \<Rightarrow> (out @ es, Hang)
               | (es, Return (distance, Some err)) \<Rightarrow> (out @ es, Crash (PanicError err))
               | (es, Return (distance, None)) \<Rightarrow>
                   (out @ es @ [Stdout (format_f w distance @ ''\<newline>'')], Exit 0)))"

section \<open>The haversine formula as the specification words it\<close>

text \<open>
  The five steps of the specification's algorithm, on four angles in decimal degrees:
  \<open>radians\<close> converts degrees to radians, \<open>haversine_a\<close> is step 3 and
  \<open>haversine_km\<close> is steps 1 to 5 with the Earth radius 6371 km.
\<close>

definition radians :: "real \<Rightarrow> real" where
  "radians x = x * pi / 180"

definition haversine_a :: "real \<Rightarrow> real \<Rightarrow> real \<Rightarrow> real \<Rightarrow> real" where
  "haversine_a lat_a lng_a lat_b lng_b =
     (sin (radians (lat_a - lat_b) / 2))\<^sup>2 +
     cos (radians lat_a) * cos (radians lat_b) * (sin (radians (lng_a - lng_b) / 2))\<^sup>2"

definition haversine_km :: "real \<Rightarrow> real \<Rightarrow> real \<Rightarrow> real \<Rightarrow> real" where
  "haversine_km lat_a lng_a lat_b lng_b =
     (let a = haversine_a lat_a lng_a lat_b lng_b;
          c = 2 * Atan2 (sqrt a) (sqrt (1 - a))
      in 6371 * c)"

section \<open>A concrete world\<close>

text \<open>
  A geocoder that knows Paris (two candidates) and London (one), answers Atlantis with
  an empty candidate list and Garbled with a body that does not decode, and refuses
  every other connection.
\<close>

definition candidate :: "string \<Rightarrow> real \<Rightarrow> real \<Rightarrow> GoogleGeoResult" where
  "candidate address lat lng =
     \<lparr>AddressComponents = [],
      FormattedAddress = address,
      Geometry = \<lparr>Location = \<lparr>GeoLocation.Lat = lat, GeoLocation.Lng = lng\<rparr>,
                  LocationType = ''APPROXIMATE'',
                  Viewport = \<lparr>Northeast = \<lparr>GeoLocation.Lat = lat, GeoLocation.Lng = lng\<rparr>,
                              Southwest = \<lparr>GeoLocation.Lat = lat, GeoLocation.Lng = lng\<rparr>\<rparr>,
                  Bounds = \<lparr>Northeast = \<lparr>GeoLocation.Lat = lat, GeoLocation.Lng = lng\<rparr>,
                            Southwest = \<lparr>GeoLocation.Lat = lat, GeoLocation.Lng = lng\<rparr>\<rparr>\<rparr>,
      Types = [''locality'']\<rparr>"

definition example_world :: world where
  "example_world =
     \<lparr>http_Get = (\<lambda>u.
        if u = GOOGLE_API @ ''?sensor=false&address=Paris'' then Inr ''P''
        else if u = GOOGLE_API @ ''?sensor=false&address=London'' then Inr ''L''
        else if u = GOOGLE_API @ ''?sensor=false&address=Atlantis'' then Inr ''Z''
        else if u = GOOGLE_API @ ''?sensor=false&address=Garbled'' then Inr ''{''
        else Inl (TransportError ''connection refused'')),
      json_Decode = (\<lambda>b.
        if b = ''P'' then
          Inr \<lparr>Status = ''OK'',
               Results = [candidate ''Paris, France'' 48.8566 2.3522,
                          candidate ''Paris, TX, USA'' 33.6609 (- 95.5555)]\<rparr>
        else if b = ''L'' then
          Inr \<lparr>Status = ''OK'', Results = [candidate ''London, UK'' 51.5074 (- 0.1278)]\<rparr>
        else if b = ''Z'' then Inr \<lparr>Status = ''ZERO_RESULTS'', Results = []\<rparr>
        else Inl (DecodeError ''unexpected end of JSON input'')),
      QueryEscape = (\<lambda>q. q),
      PrintDefaults = ''  -help: Print Usage'',
      format_f = (\<lambda>x. ''343.556060'')\<rparr>"

definition no_key :: GoogleGeocodingAPI where
  "no_key = \<lparr>APIKey = ''''\<rparr>"

definition Paris :: Location where
  "Paris = \<lparr>Lat = 48.8566, Lng = 2.3522, Address = ''Paris, France''\<rparr>"

definition London :: Location where
  "London = \<lparr>Lat = 51.5074, Lng = - 0.1278, Address = ''London, UK''\<rparr>"

section \<open>Facts about the distance computation\<close>

lemma GetRadians_radians: "GetRadians d = radians d"
  by (simp add: GetRadians_def radians_def)

lemma geoDistance_via_a:
  "geoDistance loc1 loc2 =
     EARTH_RADIUS *
       (2 * Atan2 (sqrt (haversine_a (Lat loc1) (Lng loc1) (Lat loc2) (Lng loc2)))
                  (sqrt (1 - haversine_a (Lat loc1) (Lng loc1) (Lat loc2) (Lng loc2))))"
  by (simp add: geoDistance_def haversine_a_def GetRadians_radians Let_def power2_eq_square
      mult.assoc)

lemma radians_diff: "radians (x - y) = radians x - radians y"
  by (simp add: radians_def left_diff_distrib diff_divide_distrib)

lemma sin_half_radians_swap:
  "(sin (radians (x - y) / 2))\<^sup>2 = (sin (radians (y - x) / 2))\<^sup>2"
proof -
  have "radians (x - y) = - radians (y - x)"
    by (simp add: radians_diff)
  then have "radians (x - y) / 2 = - (radians (y - x) / 2)"
    by simp
  then show ?thesis
    by (simp only: sin_minus power2_minus)
qed

lemma haversine_a_commute:
  "haversine_a lat_a lng_a lat_b lng_b = haversine_a lat_b lng_b lat_a lng_a"
  unfolding haversine_a_def
  by (simp only: sin_half_radians_swap [of lat_a lat_b] sin_half_radians_swap [of lng_a lng_b]
      mult.commute [of "cos (radians lat_a)"])

lemma geoDistance_commute: "geoDistance a b = geoDistance b a"
  by (simp only: geoDistance_via_a haversine_a_commute [of "Lat a" "Lng a"])

text \<open>
  In exact arithmetic the quantity under the two square roots stays in the unit
  interval, so both roots are taken of non-negative numbers.
\<close>

lemma haversine_a_bounds:
  "0 \<le> haversine_a lat_a lng_a lat_b lng_b \<and> haversine_a lat_a lng_a lat_b lng_b \<le> 1"
proof -
  define p where "p = cos (radians lat_a - radians lat_b)"
  define m where "m = cos (radians lat_a + radians lat_b)"
  define t where "t = (sin (radians (lng_a - lng_b) / 2))\<^sup>2"
  have p: "- 1 \<le> p" "p \<le> 1" and m: "- 1 \<le> m" "m \<le> 1"
    by (simp_all add: p_def m_def)
  have t: "0 \<le> t" "t \<le> 1"
    unfolding t_def
    using sin_cos_squared_add [of "radians (lng_a - lng_b) / 2"]
      zero_le_power2 [of "cos (radians (lng_a - lng_b) / 2)"]
      zero_le_power2 [of "sin (radians (lng_a - lng_b) / 2)"]
    by linarith+
  have "2 * (radians (lat_a - lat_b) / 2) = radians lat_a - radians lat_b"
    by (simp add: radians_diff)
  then have "p = 1 - 2 * (sin (radians (lat_a - lat_b) / 2))\<^sup>2"
    unfolding p_def using cos_double_sin [of "radians (lat_a - lat_b) / 2"]
    by (simp only:)
  then have s: "(sin (radians (lat_a - lat_b) / 2))\<^sup>2 = (1 - p) / 2"
    by simp
  have c: "cos (radians lat_a) * cos (radians lat_b) = (p + m) / 2"
    by (simp add: cos_times_cos p_def m_def)
  have a: "haversine_a lat_a lng_a lat_b lng_b = (1 - p) / 2 + (p + m) / 2 * t"
    by (simp only: haversine_a_def s c t_def)
  have f: "0 \<le> 1 - p" "0 \<le> 1 + p" "0 \<le> 1 - m" "0 \<le> 1 + m" "0 \<le> 1 - t"
    using p m t by simp_all
  have lo: "0 \<le> (1 - p) * (1 - t) + t * (1 + m)"
    using f t(1) by (simp only: add_nonneg_nonneg mult_nonneg_nonneg)
  have hi: "0 \<le> (1 + p) * (1 - t) + t * (1 - m)"
    using f t(1) by (simp only: add_nonneg_nonneg mult_nonneg_nonneg)
  define A where "A = (1 - p) / 2 + (p + m) / 2 * t"
  have e: "(1 - p) * (1 - t) + t * (1 + m) = 2 * A"
    "(1 + p) * (1 - t) + t * (1 - m) = 2 - 2 * A"
    by (simp_all add: A_def field_simps)
  have "0 \<le> A"
    using lo unfolding e by linarith
  moreover have "A \<le> 1"
    using hi unfolding e by linarith
  ultimately show ?thesis
    by (simp only: a A_def) 
qed

lemma Atan2_sqrt_arcsin:
  assumes "0 \<le> a" "a \<le> 1"
  shows "Atan2 (sqrt a) (sqrt (1 - a)) = arcsin (sqrt a)"
proof -
  consider "a = 0" | "a = 1" | "0 < a" "a < 1"
    using assms by linarith
  then show ?thesis
  proof cases
    case 1
    then show ?thesis by (simp add: Atan2_def)
  next
    case 2
    then show ?thesis by (simp add: Atan2_def)
  next
    case 3
    then have r: "0 < sqrt a" "sqrt a < 1" "0 < sqrt (1 - a)"
      by simp_all
    have "- 1 < sqrt a"
      using r by linarith
    then have "arcsin (sqrt a) = arctan (sqrt a / sqrt (1 - (sqrt a)\<^sup>2))"
      using r by (intro arcsin_arctan)
    also have "(sqrt a)\<^sup>2 = a"
      using 3 by simp
    finally show ?thesis
      using r by (simp add: Atan2_def Let_def)
  qed
qed

lemma geoDistance_arcsin:
  "geoDistance loc1 loc2 =
     2 * 6371 * arcsin (sqrt (haversine_a (Lat loc1) (Lng loc1) (Lat loc2) (Lng loc2)))"
  using haversine_a_bounds [of "Lat loc1" "Lng loc1" "Lat loc2" "Lng loc2"]
  by (simp add: geoDistance_via_a Atan2_sqrt_arcsin EARTH_RADIUS_def)

lemma geoDistance_same_point: "geoDistance loc loc = 0"
  by (simp add: geoDistance_arcsin haversine_a_def radians_def)

lemma geoDistance_antipodal_equator:
  "geoDistance \<lparr>Lat = 0, Lng = 0, Address = x\<rparr> \<lparr>Lat = 0, Lng = 180, Address = y\<rparr> = 6371 * pi"
  by (simp add: geoDistance_arcsin haversine_a_def radians_def)

section \<open>Facts about the lookups and the join\<close>

lemma GetDistance_loop_two:
  "GetDistance_loop unit [] [r0, r1] =
     (case r0 of
        None \<Rightarrow> ([], Panic NilPointerDereference)
      | Some l0 \<Rightarrow>
          (case r1 of
             None \<Rightarrow> ([], Panic NilPointerDereference)
           | Some l1 \<Rightarrow>
               ([CallGeoDistance l0 l1],
                Return (if unit = ''miles'' then KM2Miles (geoDistance l0 l1)
                        else geoDistance l0 l1, None))))"
  by (simp add: deref_def Let_def split: option.splits)

declare GetDistance_loop.simps [simp del]

lemma GetDistance_worker_eq:
  "GetDistance_worker w g q = (fst (GetLocation w g q), fst (snd (GetLocation w g q)))"
  by (simp add: GetDistance_worker_def split_beta)

lemma GetLocation_trace: "\<exists>u. fst (GetLocation w g q) = [HttpGet u]"
  by (simp add: GetLocation_def Let_def)

lemma GetLocation_no_calls: "geoDistance_calls (fst (GetLocation w g q)) = []"
  using GetLocation_trace [of w g q] by auto

lemma geoDistance_calls_append:
  "geoDistance_calls (xs @ ys) = geoDistance_calls xs @ geoDistance_calls ys"
  by (induction xs rule: geoDistance_calls.induct) simp_all

lemma GetDistance_InOrder:
  "GetDistance w InOrder g q1 q2 unit =
     (fst (GetLocation w g q1) @ fst (GetLocation w g q2) @
        fst (GetDistance_loop unit [] [fst (snd (GetLocation w g q1)), fst (snd (GetLocation w g q2))]),
      snd (GetDistance_loop unit [] [fst (snd (GetLocation w g q1)), fst (snd (GetLocation w g q2))]))"
  by (simp add: GetDistance_def arrivals_def GetDistance_worker_eq split_beta)

lemma GetDistance_Swapped:
  "GetDistance w Swapped g q1 q2 unit =
     (fst (GetLocation w g q2) @ fst (GetLocation w g q1) @
        fst (GetDistance_loop unit [] [fst (snd (GetLocation w g q2)), fst (snd (GetLocation w g q1))]),
      snd (GetDistance_loop unit [] [fst (snd (GetLocation w g q2)), fst (snd (GetLocation w g q1))]))"
  by (simp add: GetDistance_def arrivals_def GetDistance_worker_eq split_beta)

lemma GetDistance_missing:
  assumes "fst (snd (GetLocation w g q1)) = None \<or> fst (snd (GetLocation w g q2)) = None"
  shows "snd (GetDistance w s g q1 q2 unit) = Panic NilPointerDereference \<and>
         geoDistance_calls (fst (GetDistance w s g q1 q2 unit)) = []"
proof (cases s)
  case InOrder
  with assms show ?thesis
    by (auto simp: GetDistance_InOrder GetDistance_loop_two geoDistance_calls_append
        GetLocation_no_calls split: option.splits)
next
  case Swapped
  with assms show ?thesis
    by (auto simp: GetDistance_Swapped GetDistance_loop_two geoDistance_calls_append
        GetLocation_no_calls split: option.splits)
qed

lemma GetDistance_resolved:
  assumes "fst (snd (GetLocation w g q1)) = Some A" "fst (snd (GetLocation w g q2)) = Some B"
  shows "snd (GetDistance w s g q1 q2 unit) =
           Return (if unit = ''miles'' then KM2Miles (geoDistance A B) else geoDistance A B, None)"
  using assms geoDistance_commute [of A B]
  by (cases s) (simp_all add: GetDistance_InOrder GetDistance_Swapped GetDistance_loop_two)

lemma GetDistance_never_returns_error:
  "snd (GetDistance w s g q1 q2 unit) \<noteq> Return (d, Some e)"
  by (cases s) (simp_all add: GetDistance_InOrder GetDistance_Swapped GetDistance_loop_two
      split: option.splits)

lemma example_Paris:
  "GetLocation example_world no_key ''Paris'' =
     ([HttpGet (GOOGLE_API @ ''?sensor=false&address=Paris'')], (Some Paris, None))"
  by (simp add: GetLocation_def example_world_def no_key_def Paris_def candidate_def)

lemma example_London:
  "GetLocation example_world no_key ''London'' =
     ([HttpGet (GOOGLE_API @ ''?sensor=false&address=London'')], (Some London, None))"
  by (simp add: GetLocation_def example_world_def no_key_def London_def candidate_def)

lemma example_Atlantis:
  "GetLocation example_world no_key ''Atlantis'' =
     ([HttpGet (GOOGLE_API @ ''?sensor=false&address=Atlantis'')], (None, None))"
  by (simp add: GetLocation_def example_world_def no_key_def)

lemma example_Garbled:
  "GetLocation example_world no_key ''Garbled'' =
     ([HttpGet (GOOGLE_API @ ''?sensor=false&address=Garbled'')],
      (None, Some (DecodeError ''unexpected end of JSON input'')))"
  by (simp add: GetLocation_def example_world_def no_key_def)

lemma example_Nowhere:
  "GetLocation example_world no_key ''Nowhere'' =
     ([HttpGet (GOOGLE_API @ ''?sensor=false&address=Nowhere'')],
      (None, Some (TransportError ''connection refused'')))"
  by (simp add: GetLocation_def example_world_def no_key_def)

section \<open>Facts about main\<close>

lemma http_requests_append: "http_requests (xs @ ys) = http_requests xs @ http_requests ys"
  by (induction xs rule: http_requests.induct) simp_all

lemma stdout_text_append: "stdout_text (xs @ ys) = stdout_text xs @ stdout_text ys"
  by (induction xs rule: stdout_text.induct) simp_all

lemma Usage_requests: "http_requests (Usage w) = []"
  by (simp add: Usage_def)

lemma Usage_text:
  "stdout_text (Usage w) =
     ''Usage: go-city-distance [OPTIONS] CITY-A CITY-B\<newline>'' @
     ''       go-city-distance [ --help ]\<newline>\<newline>'' @
     ''Find the distance between two cities.\<newline>\<newline>Options:\<newline>'' @
     PrintDefaults w"
  by (simp add: Usage_def)

lemma main_help_no_lookup: "http_requests (fst (main w s unit True Args)) = []"
  by (simp add: main_def Let_def Usage_requests http_requests_append)

lemma GetDistance_example:
  "GetDistance example_world InOrder no_key ''Paris'' ''London'' ''km'' =
     ([HttpGet (GOOGLE_API @ ''?sensor=false&address=Paris''),
       HttpGet (GOOGLE_API @ ''?sensor=false&address=London''),
       CallGeoDistance Paris London],
      Return (geoDistance Paris London, None))"
  by (simp add: GetDistance_InOrder GetDistance_loop_two example_Paris example_London)

lemma main_example:
  "main example_world InOrder ''km'' False [''go-city-distance'', ''Paris'', ''London''] =
     ([Stdout ''km\<newline>'',
       HttpGet (GOOGLE_API @ ''?sensor=false&address=Paris''),
       HttpGet (GOOGLE_API @ ''?sensor=false&address=London''),
       CallGeoDistance Paris London,
       Stdout ''343.556060\<newline>''], Exit 0)"
proof -
  have f: "format_f example_world x = ''343.556060''" for x
    by (simp add: example_world_def)
  have n: "[''go-city-distance'', ''Paris'', ''London''] ! (3 - 2) = ''Paris''"
    "[''go-city-distance'', ''Paris'', ''London''] ! (3 - 1) = ''London''"
    by (simp_all add: numeral_3_eq_3)
  have l: "length [''go-city-distance'', ''Paris'', ''London''] = 3"
    by simp
  show ?thesis
    unfolding main_def Let_def l n no_key_def [symmetric] GetDistance_example
    by (simp add: f)
qed

section \<open>The claims\<close>

text \<open>
  C1. When either lookup finds nothing (\<open>GetLocation\<close> returns a nil location and a
  nil error), \<open>GetDistance\<close> ends in a fault, the nil-pointer panic raised while the
  arguments of \<open>geoDistance\<close> are evaluated, and \<open>geoDistance\<close> is never called,
  whichever lookup answers first.
\<close>

theorem GetDistance_NotFound_faults:
  assumes "snd (GetLocation w g q1) = (None, None) \<or> snd (GetLocation w g q2) = (None, None)"
  shows "snd (GetDistance w s g q1 q2 unit) = Panic NilPointerDereference \<and>
         geoDistance_calls (fst (GetDistance w s g q1 q2 unit)) = []"
proof -
  from assms have "fst (snd (GetLocation w g q1)) = None \<or> fst (snd (GetLocation w g q2)) = None"
    by auto
  then show ?thesis
    by (rule GetDistance_missing)
qed

theorem GetDistance_NotFound_faults_witness:
  "snd (GetLocation example_world no_key ''Atlantis'') = (None, None) \<and>
   snd (GetDistance example_world Swapped no_key ''Paris'' ''Atlantis'' ''km'') =
     Panic NilPointerDereference \<and>
   geoDistance_calls (fst (GetDistance example_world Swapped no_key ''Paris'' ''Atlantis'' ''km'')) = []"
proof -
  have h: "snd (GetLocation example_world no_key ''Paris'') = (None, None) \<or>
           snd (GetLocation example_world no_key ''Atlantis'') = (None, None)"
    by (simp add: example_Atlantis)
  show ?thesis
    using GetDistance_NotFound_faults [OF h, of Swapped "''km''"]
    by (simp add: example_Atlantis)
qed

text \<open>
  C2. A lookup that fails with a transport or decode error does not make
  \<open>GetDistance\<close> return that error: the goroutine drops it, and the nil location it
  sends makes \<open>GetDistance\<close> panic. Evaluated for a refused connection and for a body
  that does not decode.
\<close>

theorem GetDistance_drops_lookup_error:
  "snd (GetLocation example_world no_key ''Nowhere'') =
     (None, Some (TransportError ''connection refused'')) \<and>
   snd (GetDistance example_world InOrder no_key ''Paris'' ''Nowhere'' ''km'') =
     Panic NilPointerDereference \<and>
   snd (GetLocation example_world no_key ''Garbled'') =
     (None, Some (DecodeError ''unexpected end of JSON input'')) \<and>
   snd (GetDistance example_world InOrder no_key ''Garbled'' ''London'' ''km'') =
     Panic NilPointerDereference"
  by (simp add: GetDistance_InOrder GetDistance_loop_two example_Nowhere example_Garbled
      example_Paris example_London)

text \<open>
  C3. \<open>geoDistance\<close> is the haversine formula of the specification on a sphere of
  radius 6371 km, applied to the latitudes and longitudes of its two arguments.
\<close>

theorem geoDistance_is_haversine:
  "geoDistance loc1 loc2 = haversine_km (Lat loc1) (Lng loc1) (Lat loc2) (Lng loc2)"
  by (simp add: geoDistance_via_a haversine_km_def EARTH_RADIUS_def Let_def)

text \<open>
  C5. For two queries that resolve to the locations \<open>A\<close> and \<open>B\<close>, the distance
  returned for the unit miles is the distance returned for the unit km multiplied by
  0.621371192, whatever the order in which the two lookups answer in either run.
\<close>

theorem GetDistance_miles_is_km_scaled:
  assumes "fst (snd (GetLocation w g q1)) = Some A" "fst (snd (GetLocation w g q2)) = Some B"
  shows "snd (GetDistance w s g q1 q2 ''km'') = Return (geoDistance A B, None) \<and>
         snd (GetDistance w s' g q1 q2 ''miles'') = Return (geoDistance A B * 0.621371192, None)"
  by (simp add: GetDistance_resolved [OF assms] KM2Miles_def)

theorem GetDistance_miles_is_km_scaled_witness:
  "fst (snd (GetLocation example_world no_key ''Paris'')) = Some Paris \<and>
   fst (snd (GetLocation example_world no_key ''London'')) = Some London \<and>
   snd (GetDistance example_world InOrder no_key ''Paris'' ''London'' ''km'') =
     Return (geoDistance Paris London, None) \<and>
   snd (GetDistance example_world Swapped no_key ''Paris'' ''London'' ''miles'') =
     Return (geoDistance Paris London * 0.621371192, None)"
proof -
  have a: "fst (snd (GetLocation example_world no_key ''Paris'')) = Some Paris"
    by (simp add: example_Paris)
  have b: "fst (snd (GetLocation example_world no_key ''London'')) = Some London"
    by (simp add: example_London)
  show ?thesis
    using GetDistance_miles_is_km_scaled [OF a b, of InOrder Swapped] a b by simp
qed

text \<open>
  C6. \<open>geoDistance\<close> is symmetric in its two arguments.
\<close>

theorem geoDistance_symmetric: "geoDistance A B = geoDistance B A"
  by (simp only: geoDistance_via_a haversine_a_commute [of "Lat A" "Lng A"])

text \<open>
  C7. When the request is answered and the body decodes to \<open>r\<close>, \<open>GetLocation\<close>
  returns neither a location nor an error if \<open>r\<close> has no candidate, and otherwise the
  latitude, longitude and formatted address of the first candidate, with no error; the
  candidates after the first play no part.
\<close>

theorem GetLocation_first_candidate:
  assumes "fst (GetLocation w g q) = [HttpGet u]"
    and "http_Get w u = Inr body"
    and "json_Decode w body = Inr r"
  shows "snd (GetLocation w g q) =
           (case Results r of
              [] \<Rightarrow> (None, None)
            | c # cs \<Rightarrow>
                (Some \<lparr>Lat = GeoLocation.Lat (Geometry.Location (GoogleGeoResult.Geometry c)),
                       Lng = GeoLocation.Lng (Geometry.Location (GoogleGeoResult.Geometry c)),
                       Address = FormattedAddress c\<rparr>,
                 None))"
  using assms by (auto simp: GetLocation_def Let_def split: list.splits if_splits)

theorem GetLocation_first_candidate_witness:
  "fst (GetLocation example_world no_key ''Paris'') =
     [HttpGet (GOOGLE_API @ ''?sensor=false&address=Paris'')] \<and>
   http_Get example_world (GOOGLE_API @ ''?sensor=false&address=Paris'') = Inr ''P'' \<and>
   json_Decode example_world ''P'' =
     Inr \<lparr>Status = ''OK'',
          Results = [candidate ''Paris, France'' 48.8566 2.3522,
                     candidate ''Paris, TX, USA'' 33.6609 (- 95.5555)]\<rparr> \<and>
   snd (GetLocation example_world no_key ''Paris'') =
     (Some \<lparr>Lat = 48.8566, Lng = 2.3522, Address = ''Paris, France''\<rparr>, None)"
proof -
  have a: "fst (GetLocation example_world no_key ''Paris'') =
             [HttpGet (GOOGLE_API @ ''?sensor=false&address=Paris'')]"
    by (simp add: example_Paris)
  have b: "http_Get example_world (GOOGLE_API @ ''?sensor=false&address=Paris'') = Inr ''P''"
    by (simp add: example_world_def)
  have c: "json_Decode example_world ''P'' =
             Inr \<lparr>Status = ''OK'',
                  Results = [candidate ''Paris, France'' 48.8566 2.3522,
                             candidate ''Paris, TX, USA'' 33.6609 (- 95.5555)]\<rparr>"
    by (simp add: example_world_def)
  show ?thesis
    using GetLocation_first_candidate [OF a b c] a b c by (simp add: candidate_def)
qed

text \<open>
  C8. The one request \<open>GetLocation\<close> makes goes to the geocoding endpoint with the
  parameters \<open>sensor=false\<close> and \<open>address\<close>, the escaped query, followed by the
  parameter \<open>key\<close> exactly when the API key is not empty.
\<close>

theorem GetLocation_request_url:
  "fst (GetLocation w g q) =
     [HttpGet (''https://maps.googleapis.com/maps/api/geocode/json'' @
               ''?sensor=false&address='' @ QueryEscape w q @
               (if APIKey g = [] then [] else ''&key='' @ APIKey g))]"
  by (simp add: GetLocation_def GOOGLE_API_def Let_def)

text \<open>
  C9. As stated the claim fails: with \<open>--help\<close> and a unit that is neither km nor
  miles, the unit check comes first and the process exits with status 1.
\<close>

theorem main_help_invalid_unit_exits_1:
  "snd (main example_world InOrder ''furlongs'' True
          [''go-city-distance'', ''--unit=furlongs'', ''--help'']) = Exit 1 \<and>
   snd (main example_world InOrder ''furlongs'' True
          [''go-city-distance'', ''--unit=furlongs'', ''--help'']) \<noteq> Exit 0"
  by (simp add: main_def Let_def)

text \<open>
  C9, amended. With \<open>--help\<close> set and the unit km or miles, the program writes the
  unit on a line of its own and then the usage text to standard output, exits with
  status 0 and makes no request to the geocoder.
\<close>

theorem main_help_valid_unit:
  assumes "flHelp" and "unit = ''km'' \<or> unit = ''miles''"
  shows "snd (main w s unit flHelp Args) = Exit 0 \<and>
         stdout_text (fst (main w s unit flHelp Args)) =
           unit @ ''\<newline>'' @ stdout_text (Usage w) \<and>
         http_requests (fst (main w s unit flHelp Args)) = []"
  using assms by (auto simp: main_def Let_def Usage_requests http_requests_append stdout_text_append)

theorem main_help_valid_unit_witness:
  "(''miles'' = ''km'' \<or> ''miles'' = ''miles'') \<and>
   snd (main example_world InOrder ''miles'' True [''go-city-distance'', ''--unit=miles'', ''--help'']) = Exit 0 \<and>
   stdout_text (fst (main example_world InOrder ''miles'' True
                       [''go-city-distance'', ''--unit=miles'', ''--help''])) =
     ''miles\<newline>'' @ stdout_text (Usage example_world) \<and>
   http_requests (fst (main example_world InOrder ''miles'' True
                         [''go-city-distance'', ''--unit=miles'', ''--help''])) = []"
proof -
  have u: "''miles'' = ''km'' \<or> ''miles'' = ''miles''"
    by simp
  show ?thesis
    using main_help_valid_unit [OF TrueI u, of example_world InOrder
        "[''go-city-distance'', ''--unit=miles'', ''--help'']"]
    by simp
qed

text \<open>
  C10. For two queries that resolve to the locations \<open>A\<close> and \<open>B\<close> and any unit
  other than miles, recognised or not, \<open>GetDistance\<close> returns the distance in
  kilometres, exactly as it does for the unit km.
\<close>

theorem GetDistance_unit_fallthrough:
  assumes "fst (snd (GetLocation w g q1)) = Some A" "fst (snd (GetLocation w g q2)) = Some B"
    and "unit \<noteq> ''miles''"
  shows "snd (GetDistance w s g q1 q2 unit) = Return (geoDistance A B, None) \<and>
         snd (GetDistance w s g q1 q2 unit) = snd (GetDistance w s g q1 q2 ''km'')"
  using assms(3) by (simp add: GetDistance_resolved [OF assms(1,2)])

theorem GetDistance_unit_fallthrough_witness:
  "fst (snd (GetLocation example_world no_key ''Paris'')) = Some Paris \<and>
   fst (snd (GetLocation example_world no_key ''London'')) = Some London \<and>
   ''furlongs'' \<noteq> ''miles'' \<and>
   snd (GetDistance example_world InOrder no_key ''Paris'' ''London'' ''furlongs'') =
     Return (geoDistance Paris London, None)"
proof -
  have a: "fst (snd (GetLocation example_world no_key ''Paris'')) = Some Paris"
    by (simp add: example_Paris)
  have b: "fst (snd (GetLocation example_world no_key ''London'')) = Some London"
    by (simp add: example_London)
  have c: "''furlongs'' \<noteq> ''miles''"
    by simp
  show ?thesis
    using GetDistance_unit_fallthrough [OF a b c, of InOrder] a b by simp
qed

end
